theory Spec2Isabelle
  imports Main "HOL-Library.Sublist"
begin

section \<open>Strings as the TypeScript code uses them\<close>

text \<open>
  A JavaScript string is modelled as a \<^typ>\<open>string\<close>. \<open>haystack.includes(needle)\<close> is the
  substring test; it scans the haystack from the left and tests at every position whether
  the needle starts there.
\<close>

fun str_includes :: "string \<Rightarrow> string \<Rightarrow> bool" where
  "str_includes [] needle = (needle = [])"
| "str_includes (c # cs) needle = (prefix needle (c # cs) \<or> str_includes cs needle)"

text \<open>
  An optional field of a response object is an \<^typ>\<open>'a option\<close>: \<open>None\<close> is \<open>undefined\<close>.
  A string is truthy when it is present and not empty; \<open>d?.includes(n)\<close> is falsy when
  \<open>d\<close> is \<open>undefined\<close>. \<open>js_or v dflt\<close> is \<open>v || dflt\<close>, and
  \<open>when_truthy v f g\<close> is \<open>if (v) { f(v) } else { g }\<close>.
\<close>

definition truthy :: "string option \<Rightarrow> bool" where
  "truthy v = (case v of None \<Rightarrow> False | Some s \<Rightarrow> s \<noteq> [])"

definition js_or :: "string option \<Rightarrow> string \<Rightarrow> string" where
  "js_or v dflt = (case v of None \<Rightarrow> dflt | Some s \<Rightarrow> if s \<noteq> [] then s else dflt)"

definition when_truthy :: "string option \<Rightarrow> (string \<Rightarrow> 'b) \<Rightarrow> 'b \<Rightarrow> 'b" where
  "when_truthy v f g = (case v of None \<Rightarrow> g | Some s \<Rightarrow> if s \<noteq> [] then f s else g)"

definition opt_includes :: "string option \<Rightarrow> string \<Rightarrow> bool" where
  "opt_includes v needle = (case v of None \<Rightarrow> False | Some s \<Rightarrow> str_includes s needle)"

section \<open>The aggregator response (lib/vtpass-helpers.ts, lib/api.ts)\<close>

text \<open>
  The response object with the fields that the interfaces \<open>VTPassResponseData\<close>
  (vtpass-helpers), \<open>VTPassResponse\<close> (inside \<open>purchaseService\<close>) and
  \<open>VTPassTransactionResponse\<close> (VTPassContext) declare. \<open>tx_status\<close> is the field
  \<open>transaction.status\<close> that only \<open>makePurchase\<close> reads. A \<open>raw_response\<close> is a body
  that may carry a second body under \<open>response\<close>.
\<close>

record transactions =
  status :: "string option"
  product_name :: "string option"

record content =
  transactions :: "transactions option"

record transaction_rec =
  tx_status :: "string option"

record vtpass_body =
  code :: "string option"
  response_description :: "string option"
  content :: "content option"
  error_message :: "string option"
  suggested_action :: "string option"
  transaction :: "transaction_rec option"

record raw_response = vtpass_body +
  response :: "vtpass_body option"

definition transactions_status :: "'a vtpass_body_scheme \<Rightarrow> string option" where
  "transactions_status r = Option.bind (Option.bind (content r) transactions) status"

definition transactions_product_name :: "'a vtpass_body_scheme \<Rightarrow> string option" where
  "transactions_product_name r = Option.bind (Option.bind (content r) transactions) product_name"

definition transaction_status :: "'a vtpass_body_scheme \<Rightarrow> string option" where
  "transaction_status r = Option.bind (transaction r) tx_status"

text \<open>The nested body, returned by \<open>purchaseService\<close> in place of its wrapper.\<close>

definition as_raw :: "vtpass_body \<Rightarrow> raw_response" where
  "as_raw v = \<lparr>code = code v, response_description = response_description v,
     content = content v, error_message = error_message v,
     suggested_action = suggested_action v, transaction = transaction v,
     response = None\<rparr>"

definition empty_response :: raw_response where
  "empty_response = \<lparr>code = None, response_description = None, content = None,
     error_message = None, suggested_action = None, transaction = None, response = None\<rparr>"

subsection \<open>isVTPassSuccess (vtpass-helpers.ts)\<close>

text \<open>
  \<^verbatim>\<open>return !!(response && (response.code === '000' || response.code === '01' ||
     (response.response_description && response.response_description.includes('SUCCESSFUL'))))\<close>
  The argument is \<open>None\<close> when \<open>makePurchase\<close> returned \<open>null\<close>.
\<close>

definition isVTPassSuccess :: "'a vtpass_body_scheme option \<Rightarrow> bool" where
  "isVTPassSuccess resp =
     (case resp of
        None \<Rightarrow> False
      | Some r \<Rightarrow>
          code r = Some ''000'' \<or> code r = Some ''01'' \<or>
          (truthy (response_description r) \<and>
           opt_includes (response_description r) ''SUCCESSFUL''))"

subsection \<open>extractVTPassErrorMessage (vtpass-helpers.ts)\<close>

text \<open>
  The \<open>switch\<close> on the code either returns at once (\<open>Inl\<close>) or leaves the message for
  the suggested action to be appended (\<open>Inr\<close>).
\<close>

definition switch_code :: "string option \<Rightarrow> string option \<Rightarrow> string \<Rightarrow> string + string" where
  "switch_code c d errorMessage =
     (if c = Some ''000'' then
        (if opt_includes d ''SUCCESSFUL'' then Inl ''Transaction completed successfully!''
         else Inr errorMessage)
      else if c = Some ''099'' then Inl ''Transaction is pending. Please wait for confirmation.''
      else if c = Some ''016'' then
        Inr (''Transaction failed: '' @ (if errorMessage \<noteq> [] then errorMessage else ''Unknown reason''))
      else if c = Some ''014'' then
        Inr ''Insufficient funds in your account. Please add funds and try again.''
      else if c = Some ''010'' then
        Inr ''The selected variation code does not exist for this product. Please try a different bundle.''
      else if c = Some ''009'' then
        Inr ''Duplicate transaction detected. Please check if your previous transaction was successful.''
      else if c = Some ''018'' then
        Inr ''Invalid phone number format. Please check and try again.''
      else if c = Some ''020'' then
        Inr ''Transaction verification failed. Please contact support.''
      else if c = Some ''021'' then
        Inr ''Network error or service unavailable. Please try again later.''
      else if c = Some ''025'' then
        Inr ''Invalid amount for this service. Please enter a valid amount.''
      else if c = Some ''026'' then
        Inr ''Invalid variation code. Please select a different bundle.''
      else Inr errorMessage)"

definition extractVTPassErrorMessage :: "'a vtpass_body_scheme option \<Rightarrow> string" where
  "extractVTPassErrorMessage responseData =
     (let c = Option.bind responseData code;
          d = Option.bind responseData response_description;
          e = Option.bind responseData error_message;
          a = Option.bind responseData suggested_action
      in if c = Some ''000'' \<and> opt_includes d ''TRANSACTION SUCCESSFUL''
         then ''Transaction completed successfully!''
         else
           (case switch_code c d
                   (when_truthy e (\<lambda>m. m)
                      (when_truthy d (\<lambda>m. m) ''An error occurred with your transaction.'')) of
              Inl returned \<Rightarrow> returned
            | Inr errorMessage \<Rightarrow>
                when_truthy a (\<lambda>action. errorMessage @ '' '' @ action) errorMessage))"

subsection \<open>The extractVTPassErrorMessage of the airtime page\<close>

text \<open>
  \<open>AirtimePage\<close> declares a function of the same name in its body, which shadows the
  imported helper inside that component.
\<close>

definition airtime_extractVTPassErrorMessage :: "'a vtpass_body_scheme option \<Rightarrow> string" where
  "airtime_extractVTPassErrorMessage responseData =
     (case responseData of
        None \<Rightarrow> ''Unknown VTPass error''
      | Some r \<Rightarrow>
          when_truthy (error_message r)
            (\<lambda>message. when_truthy (suggested_action r) (\<lambda>action. message @ '' '' @ action) message)
            (if code r = Some ''016'' then
               (if transactions_status r = Some ''failed''
                then ''Transaction failed: '' @ js_or (response_description r) ''Unknown reason''
                     @ ''. Please try again or contact support.''
                else js_or (response_description r) ''Transaction failed on VTPass'')
             else if code r = Some ''014'' then
               ''Insufficient funds at the provider. Please try again later or contact support.''
             else if code r = Some ''009'' then
               ''Duplicate transaction detected. Please check if your previous transaction was successful before trying again.''
             else js_or (response_description r) ''Error processing transaction''))"

section \<open>The purchase call (lib/api.ts, contexts/VTPassContext)\<close>

text \<open>
  A thrown \<open>Error\<close> is a value: its \<open>name\<close> and \<open>message\<close> and the properties that
  \<open>AppError\<close> adds. A function that may throw returns \<open>js_error + 'a\<close>, with \<open>Inl\<close>
  for the error thrown.
\<close>

record js_error =
  name :: string
  message :: string
  responseData :: "vtpass_body option"
  insufficientBalance :: bool
  managedError :: bool
  handled :: bool

definition is_delivered :: "string option \<Rightarrow> bool" where
  "is_delivered st = (st = Some ''delivered'' \<or> st = Some ''successful'')"

subsection \<open>purchaseService\<close>

text \<open>
  The argument is what \<open>await apiRequest('/users/purchase/', ...)\<close> gave: an error
  thrown, or the parsed body (\<open>None\<close> for \<open>null\<close>). The \<open>catch\<close> block rethrows every
  error, an \<open>AbortError\<close> untouched and any other marked as handled; the error that the
  \<open>try\<close> block throws itself goes through the same \<open>catch\<close>.
\<close>

definition purchaseService_catch :: "js_error \<Rightarrow> js_error + raw_response option" where
  "purchaseService_catch error =
     (if name error = ''AbortError'' then Inl error else Inl (error\<lparr>handled := True\<rparr>))"

definition purchaseService :: "js_error + raw_response option \<Rightarrow> js_error + raw_response option" where
  "purchaseService outcome =
     (case outcome of
        Inl error \<Rightarrow> purchaseService_catch error
      | Inr rawResponse \<Rightarrow>
          (case rawResponse of
             None \<Rightarrow> Inr rawResponse
           | Some resp \<Rightarrow>
               if code resp = Some ''000'' \<or> code resp = Some ''01'' \<or>
                  is_delivered (transactions_status resp)
               then Inr (Some resp)
               else
                 (case response resp of
                    None \<Rightarrow> Inr rawResponse
                  | Some vtpassResponse \<Rightarrow>
                      if code vtpassResponse = Some ''000'' \<or>
                         is_delivered (transactions_status vtpassResponse)
                      then Inr (Some (as_raw vtpassResponse))
                      else if code vtpassResponse = Some ''016'' \<or>
                              code vtpassResponse = Some ''010'' \<or>
                              transactions_status vtpassResponse = Some ''failed''
                      then purchaseService_catch
                             \<lparr>name = ''Error'',
                              message = js_or (response_description vtpassResponse)
                                          (js_or (error_message vtpassResponse)
                                             ''Transaction failed on VTPass''),
                              responseData = Some vtpassResponse,
                              insufficientBalance = False,
                              managedError = True,
                              handled = True\<rparr>
                      else Inr rawResponse)))"

subsection \<open>makePurchase\<close>

text \<open>
  What a handler does besides changing the page state is logged as a list of effects:
  the toasts shown and the calls of \<open>fetchTransactions\<close> and \<open>fetchBalance\<close>.
\<close>

datatype effect =
    ToastSuccess string
  | ToastError string
  | ToastInfo string
  | FetchTransactions
  | FetchBalance

text \<open>The object that the outer \<open>catch\<close> of \<open>makePurchase\<close> returns.\<close>

definition errorResponse :: "string \<Rightarrow> raw_response" where
  "errorResponse msg =
     \<lparr>code = Some ''error'',
      response_description = Some (if msg \<noteq> [] then msg else ''Purchase failed''),
      content = None,
      error_message = Some (if msg \<noteq> [] then msg else ''An unknown error occurred''),
      suggested_action = None, transaction = None, response = None\<rparr>"

text \<open>
  Reading \<open>response.transaction\<close> of a \<open>null\<close> response throws a \<open>TypeError\<close>, which the
  outer \<open>catch\<close> turns into an error response; this is the message V8 gives it.
\<close>

definition null_response_message :: string where
  "null_response_message = ''Cannot read properties of null (reading 'transaction')''"

text \<open>
  Without a login \<open>makePurchase\<close> returns \<open>null\<close> before any network call. Otherwise it
  awaits \<open>purchaseService\<close>; \<open>makePurchase_resume\<close> is what runs once the network call
  has settled. It returns the response for the page and the effects. No path throws.
\<close>

definition makePurchase_unauthenticated :: "raw_response option \<times> effect list" where
  "makePurchase_unauthenticated = (None, [ToastError ''You must be logged in to make a purchase''])"

definition makePurchase_resume ::
  "js_error + raw_response option \<Rightarrow> raw_response option \<times> effect list" where
  "makePurchase_resume outcome =
     (case purchaseService outcome of
        Inr None \<Rightarrow> (Some (errorResponse null_response_message), [])
      | Inr (Some resp) \<Rightarrow>
          if transaction_status resp = Some ''successful'' \<or>
             Option.bind (response resp) transaction_status = Some ''successful''
          then (Some resp, [ToastSuccess ''Purchase successful!'', FetchTransactions, FetchBalance])
          else (Some resp, [ToastInfo ''Purchase is being processed. Check transactions for updates.''])
      | Inl err \<Rightarrow>
          (Some (errorResponse
             (if name err = ''AbortError''
              then ''The purchase request timed out. Please check your network connection and try again.''
              else message err)), []))"

section \<open>The request id (vtpass-helpers.ts)\<close>

text \<open>
  \<open>generateUniqueRequestId\<close> reads the clock and the random source. Both readings are
  arguments here: \<open>timestamp\<close> is the value of \<open>Date.now()\<close>, a count of milliseconds, and
  \<open>random36\<close> is the string \<open>Math.random().toString(36)\<close>, of which
  \<open>substring(2, 7)\<close> keeps at most five characters after the leading \<open>0.\<close>. The template
  literal prints the timestamp in decimal. \<open>pfx\<close> is the parameter \<open>prefix\<close>.
\<close>

definition digit_char :: "nat \<Rightarrow> char" where
  "digit_char d = ''0123456789'' ! d"

fun dec :: "nat \<Rightarrow> string" where
  "dec n = (if n < 10 then [digit_char n] else dec (n div 10) @ [digit_char (n mod 10)])"

definition generateUniqueRequestId :: "string \<Rightarrow> nat \<Rightarrow> string \<Rightarrow> string" where
  "generateUniqueRequestId pfx timestamp random36 =
     pfx @ ''-'' @ dec timestamp @ ''-'' @ take 5 (drop 2 random36)"

text \<open>
  The retry handler of the data page (\<open>DataBundlePage\<close>) builds its id in place: \<^verbatim>\<open>`data-${Date.now()}-retry-${retryCount}${Math.random().toString(36).substring(2, 7)}`\<close>.
\<close>

definition data_retry_request_id :: "nat \<Rightarrow> nat \<Rightarrow> string \<Rightarrow> string" where
  "data_retry_request_id timestamp count random36 =
     ''data-'' @ dec timestamp @ ''-retry-'' @ dec count @ take 5 (drop 2 random36)"

section \<open>The balance call (lib/api.ts)\<close>

text \<open>
  A balance field holds a string, a number or something else; \<open>None\<close> is \<open>undefined\<close>.
  Numbers are a type parameter and \<open>parseFloat\<close> is an argument. The response has a
  \<open>balance\<close> of its own and may carry a \<open>data\<close> object with a \<open>balance\<close>.
\<close>

datatype 'n js_value = JString string | JNumber 'n | JOther

record 'n balance_holder =
  balance :: "'n js_value option"

record 'n balance_response = "'n balance_holder" +
  data :: "'n balance_holder option"

text \<open>
  The body of the \<open>try\<close> block. The argument is what \<open>await apiRequest('/users/balance/')\<close>
  gave; reading \<open>.data\<close> of a \<open>null\<close> response throws a \<open>TypeError\<close>.
\<close>

definition direct_balance :: "(string \<Rightarrow> 'n) \<Rightarrow> 'n balance_response \<Rightarrow> 'n::zero" where
  "direct_balance parseFloat r =
     (case balance r of
        Some (JNumber n) \<Rightarrow> n
      | Some (JString s) \<Rightarrow> parseFloat s
      | _ \<Rightarrow> 0)"

definition getVTPassBalance_try ::
  "(string \<Rightarrow> 'n) \<Rightarrow> js_error + 'n balance_response option \<Rightarrow> js_error + 'n::zero" where
  "getVTPassBalance_try parseFloat outcome =
     (case outcome of
        Inl error \<Rightarrow> Inl error
      | Inr None \<Rightarrow>
          Inl \<lparr>name = ''TypeError'', message = ''Cannot read properties of null (reading 'data')'',
               responseData = None, insufficientBalance = False, managedError = False,
               handled = False\<rparr>
      | Inr (Some r) \<Rightarrow>
          (case data r of
             None \<Rightarrow> Inr (direct_balance parseFloat r)
           | Some d \<Rightarrow>
               (case balance d of
                  Some (JString s) \<Rightarrow> Inr (parseFloat s)
                | Some (JNumber n) \<Rightarrow> Inr n
                | _ \<Rightarrow> Inr (direct_balance parseFloat r))))"

text \<open>The \<open>catch\<close> block returns a balance of 0 for whatever was thrown.\<close>

definition getVTPassBalance ::
  "(string \<Rightarrow> 'n) \<Rightarrow> js_error + 'n balance_response option \<Rightarrow> js_error + 'n::zero" where
  "getVTPassBalance parseFloat outcome =
     (case getVTPassBalance_try parseFloat outcome of
        Inl error \<Rightarrow> Inr 0
      | Inr b \<Rightarrow> Inr b)"

section \<open>The purchase pages\<close>

text \<open>
  \<open>PurchaseData\<close> (lib/api.ts). The amount is kept as the text that a template literal
  prints for it. \<open>retryCount_field\<close> is the property \<open>retryCount\<close> that the airtime page
  adds to the object it stores or resubmits: absent on a first submission.
\<close>

record purchase_data =
  service_id :: string
  variation_code :: "string option"
  amount :: string
  phone :: string
  email :: string
  pin :: string
  transaction_type :: string
  request_id :: "string option"
  auto_retry :: "bool option"
  billersCode :: "string option"
  retryCount_field :: "nat option"

text \<open>
  The React state that the handlers of a purchase page read and write, and three logs:
  \<open>submitted\<close> holds the payload of every network call issued, newest first;
  \<open>in_flight\<close> holds the calls whose promise has not settled yet, each with what the
  suspended handler needs when it resumes; \<open>effects\<close> holds the effects in the order
  they happened. A handler runs to its \<open>await\<close> in one step and resumes in another.
  The fields of the form are not part of the state: what a handler reads from them is an
  argument of the handler.
\<close>

record 'k page =
  isPurchasing :: bool
  transactionFailed :: bool
  transactionSuccessful :: bool
  errorMessage :: string
  failedTransaction :: "purchase_data option"
  submitted :: "purchase_data list"
  in_flight :: "(purchase_data \<times> 'k) list"
  effects :: "effect list"

subsection \<open>The airtime page (app/dashboard/airtime/page.tsx)\<close>

text \<open>
  An airtime call in flight carries the 25 second timer of \<open>handlePurchase\<close>, if that
  handler set one and it has not fired: the timer's callback tests the value of
  \<open>isPurchasing\<close> that the handler's closure saw, which is stored with it.
\<close>

record airtime_page = "bool option page" +
  retryCount :: nat

text \<open>
  The retry ceiling: the 3 of the retry button's \<open>retryCount >= 3\<close> and of the text
  \<open>Retry attempts: n/3\<close> shown beside it.
\<close>

definition MAX_RETRIES :: nat where
  "MAX_RETRIES = 3"

definition airtime_init :: airtime_page where
  "airtime_init = \<lparr>isPurchasing = False, transactionFailed = False,
     transactionSuccessful = False, errorMessage = [], failedTransaction = None,
     submitted = [], in_flight = [], effects = [], retryCount = 0\<rparr>"

text \<open>The currency sign of the toasts, in UTF-8.\<close>

definition naira :: string where
  "naira = [CHR 0xE2, CHR 0x82, CHR 0xA6]"

definition clearFailedState :: "airtime_page \<Rightarrow> airtime_page" where
  "clearFailedState s =
     s\<lparr>transactionFailed := False, errorMessage := [], retryCount := 0,
       failedTransaction := None\<rparr>"

definition successMessage :: "purchase_data \<Rightarrow> raw_response option \<Rightarrow> string" where
  "successMessage purchaseData resp =
     when_truthy (Option.bind resp transactions_product_name)
       (\<lambda>product. ''Successfully purchased '' @ product)
       (''Successfully purchased '' @ naira @ amount purchaseData @ '' airtime for ''
          @ phone purchaseData)"

text \<open>
  \<open>handlePurchaseWithData\<close> after \<open>await makePurchase(purchaseData)\<close>. Its \<open>catch\<close>
  block has no counterpart: \<open>makePurchase\<close> never rejects, \<open>fetchBalance\<close> is called
  inside a \<open>try\<close> of its own, and nothing else in the \<open>try\<close> block throws.
\<close>

definition handlePurchaseWithData_resume ::
  "purchase_data \<Rightarrow> raw_response option \<Rightarrow> airtime_page \<Rightarrow> airtime_page" where
  "handlePurchaseWithData_resume purchaseData resp s =
     (if isVTPassSuccess resp then
        s\<lparr>transactionSuccessful := True, isPurchasing := False,
          effects := effects s @ [ToastSuccess (successMessage purchaseData resp), FetchBalance]\<rparr>
      else
        s\<lparr>transactionFailed := True, isPurchasing := False,
          errorMessage := airtime_extractVTPassErrorMessage resp,
          effects := effects s @ [ToastError (airtime_extractVTPassErrorMessage resp)],
          failedTransaction := Some (purchaseData\<lparr>retryCount_field := Some 0\<rparr>)\<rparr>)"

text \<open>
  \<open>handlePurchaseWithData\<close> up to the \<open>await\<close>: with a login the network call is
  issued and the handler is suspended; without one \<open>makePurchase\<close> returns \<open>null\<close> and
  the handler goes on.
\<close>

definition handlePurchaseWithData ::
  "bool \<Rightarrow> purchase_data \<Rightarrow> bool option \<Rightarrow> airtime_page \<Rightarrow> airtime_page" where
  "handlePurchaseWithData isAuthenticated purchaseData timer s =
     (if isAuthenticated then
        s\<lparr>submitted := purchaseData # submitted s,
          in_flight := in_flight s @ [(purchaseData, timer)]\<rparr>
      else
        handlePurchaseWithData_resume purchaseData (fst makePurchase_unauthenticated)
          (s\<lparr>effects := effects s @ snd makePurchase_unauthenticated\<rparr>))"

text \<open>
  The checks at the head of \<open>handlePurchase\<close> read the form; their result is an argument.
  A missing network throws, and the \<open>catch\<close> block resets \<open>isPurchasing\<close>; the other
  failed checks show a toast and return. \<open>form\<close> gives the fields of the payload that
  come from the form.
\<close>

datatype validation =
    MissingField
  | NetworkNotFound
  | InvalidAmount
  | InsufficientBalance string string
  | Valid

definition handlePurchase ::
  "bool \<Rightarrow> validation \<Rightarrow> purchase_data \<Rightarrow> nat \<Rightarrow> string \<Rightarrow> airtime_page \<Rightarrow> airtime_page" where
  "handlePurchase isAuthenticated v form timestamp random36 s =
     (case v of
        MissingField \<Rightarrow> s\<lparr>effects := effects s @ [ToastError ''Please fill all required fields'']\<rparr>
      | NetworkNotFound \<Rightarrow> s\<lparr>isPurchasing := False\<rparr>
      | InvalidAmount \<Rightarrow>
          s\<lparr>effects := effects s @
              [ToastError (''Please enter a valid amount (minimum '' @ naira @ ''50)'')]\<rparr>
      | InsufficientBalance required available \<Rightarrow>
          s\<lparr>effects := effects s @
              [ToastError (''Insufficient balance. Required: '' @ naira @ required
                 @ '', Available: '' @ naira @ available)]\<rparr>
      | Valid \<Rightarrow>
          handlePurchaseWithData isAuthenticated
            (form\<lparr>transaction_type := ''airtime'',
               request_id := Some (generateUniqueRequestId ''air'' timestamp random36),
               retryCount_field := None\<rparr>)
            (Some (isPurchasing s))
            ((clearFailedState s)\<lparr>isPurchasing := True\<rparr>))"

definition handleRetryTransaction ::
  "bool \<Rightarrow> nat \<Rightarrow> string \<Rightarrow> airtime_page \<Rightarrow> airtime_page" where
  "handleRetryTransaction isAuthenticated timestamp random36 s =
     (case failedTransaction s of
        None \<Rightarrow> s
      | Some failed \<Rightarrow>
          handlePurchaseWithData isAuthenticated
            (failed\<lparr>request_id := Some (generateUniqueRequestId ''air-retry'' timestamp random36),
               retryCount_field := Some (retryCount s + 1)\<rparr>)
            None
            (s\<lparr>retryCount := retryCount s + 1, isPurchasing := True,
               transactionFailed := False, errorMessage := []\<rparr>))"

text \<open>
  The \<open>i\<close>-th call in flight settles: \<open>makePurchase\<close> resumes, then the page's handler;
  the timer of that handler, if any, is cleared with it.
\<close>

definition airtime_settle ::
  "nat \<Rightarrow> js_error + raw_response option \<Rightarrow> airtime_page \<Rightarrow> airtime_page" where
  "airtime_settle i outcome s =
     (if i < length (in_flight s) then
        handlePurchaseWithData_resume (fst (in_flight s ! i)) (fst (makePurchase_resume outcome))
          (s\<lparr>in_flight := take i (in_flight s) @ drop (Suc i) (in_flight s),
             effects := effects s @ snd (makePurchase_resume outcome)\<rparr>)
      else s)"

text \<open>The timer of the \<open>i\<close>-th call in flight fires.\<close>

definition purchaseTimeout :: "nat \<Rightarrow> airtime_page \<Rightarrow> airtime_page" where
  "purchaseTimeout i s =
     (if i < length (in_flight s) then
        (case snd (in_flight s ! i) of
           None \<Rightarrow> s
         | Some captured \<Rightarrow>
             if captured then
               s\<lparr>in_flight := (in_flight s)[i := (fst (in_flight s ! i), None)],
                 isPurchasing := False, transactionFailed := True,
                 errorMessage := ''The request is taking too long. Please check your connection and try again.'',
                 effects := effects s @
                   [ToastError ''The request is taking too long. Please check your connection and try again.'']\<rparr>
             else s\<lparr>in_flight := (in_flight s)[i := (fst (in_flight s ! i), None)]\<rparr>)
      else s)"

text \<open>
  What can happen to the rendered page. A click reaches its handler only when the button
  is rendered and not disabled: the purchase button is disabled while \<open>isPurchasing\<close>
  and while a field of the form is empty, which is the case \<open>MissingField\<close>; the retry
  button is rendered when \<open>transactionFailed\<close> and disabled when
  \<open>retryCount >= 3 || isPurchasing\<close>. A call in flight may settle and a pending timer
  may fire at any time.
\<close>

datatype airtime_event =
    ClickBuy validation purchase_data nat string
  | ClickTryAgain nat string
  | Settles nat "js_error + raw_response option"
  | TimeoutFires nat

definition airtime_ui :: "bool \<Rightarrow> airtime_event \<Rightarrow> airtime_page \<Rightarrow> airtime_page" where
  "airtime_ui isAuthenticated ev s =
     (case ev of
        ClickBuy v form timestamp random36 \<Rightarrow>
          if isPurchasing s \<or> v = MissingField then s
          else handlePurchase isAuthenticated v form timestamp random36 s
      | ClickTryAgain timestamp random36 \<Rightarrow>
          if transactionFailed s \<and> \<not> (retryCount s \<ge> 3 \<or> isPurchasing s)
          then handleRetryTransaction isAuthenticated timestamp random36 s
          else s
      | Settles i outcome \<Rightarrow> airtime_settle i outcome s
      | TimeoutFires i \<Rightarrow> purchaseTimeout i s)"

fun airtime_run :: "bool \<Rightarrow> airtime_event list \<Rightarrow> airtime_page \<Rightarrow> airtime_page" where
  "airtime_run isAuthenticated [] s = s"
| "airtime_run isAuthenticated (ev # evs) s =
     airtime_run isAuthenticated evs (airtime_ui isAuthenticated ev s)"

text \<open>
  The attempts of the purchase under way: the submissions back to the latest first
  submission, the one without a \<open>retryCount\<close>.
\<close>

fun current_session :: "purchase_data list \<Rightarrow> purchase_data list" where
  "current_session [] = []"
| "current_session (d # ds) =
     (if retryCount_field d = None then [d] else d # current_session ds)"

text \<open>The clock readings that a list of events hands to the handlers.\<close>

fun clock_readings :: "airtime_event list \<Rightarrow> nat list" where
  "clock_readings [] = []"
| "clock_readings (ClickBuy v form timestamp random36 # evs) = timestamp # clock_readings evs"
| "clock_readings (ClickTryAgain timestamp random36 # evs) = timestamp # clock_readings evs"
| "clock_readings (ev # evs) = clock_readings evs"


subsection \<open>The electricity page (app/dashboard/electricity/page.tsx)\<close>

text \<open>
  An electricity call in flight carries which handler awaits it: \<open>True\<close> for
  \<open>handleRetry\<close>, \<open>False\<close> for \<open>handlePurchase\<close>. The page keeps no count of retries.
  The customer details that the success card shows, the balance shown and the spellings
  under which the payload repeats its fields are left out.
\<close>

record electricity_page = "bool page" +
  failedMessage :: string

definition electricity_init :: electricity_page where
  "electricity_init = \<lparr>isPurchasing = False, transactionFailed = False,
     transactionSuccessful = False, errorMessage = [], failedTransaction = None,
     submitted = [], in_flight = [], effects = [], failedMessage = []\<rparr>"

text \<open>\<open>refreshBalance\<close> of the page: it awaits \<open>fetchBalance\<close> and shows a toast.\<close>

definition refreshBalance :: "effect list" where
  "refreshBalance = [FetchBalance, ToastSuccess ''Balance refreshed'']"

definition resetForm :: "electricity_page \<Rightarrow> electricity_page" where
  "resetForm s =
     s\<lparr>transactionSuccessful := False, transactionFailed := False, errorMessage := [],
       failedMessage := [], failedTransaction := None\<rparr>"

text \<open>The two handlers after \<open>await makePurchase(...)\<close>.\<close>

definition electricity_handlePurchase_resume ::
  "purchase_data \<Rightarrow> raw_response option \<Rightarrow> electricity_page \<Rightarrow> electricity_page" where
  "electricity_handlePurchase_resume purchaseData resp s =
     (if isVTPassSuccess resp then
        s\<lparr>transactionSuccessful := True, isPurchasing := False,
          effects := effects s @ [ToastSuccess ''Payment successful!''] @ refreshBalance\<rparr>
      else
        s\<lparr>transactionFailed := True, isPurchasing := False,
          failedTransaction := Some purchaseData,
          failedMessage := extractVTPassErrorMessage resp,
          effects := effects s @
            [ToastError (js_or (Some (extractVTPassErrorMessage resp))
               ''Payment failed. Please try again.'')]\<rparr>)"

definition handleRetry_resume ::
  "raw_response option \<Rightarrow> electricity_page \<Rightarrow> electricity_page" where
  "handleRetry_resume resp s =
     (if isVTPassSuccess resp then
        s\<lparr>transactionSuccessful := True, isPurchasing := False,
          effects := effects s @ [ToastSuccess ''Payment successful!''] @ refreshBalance\<rparr>
      else
        s\<lparr>transactionFailed := True, isPurchasing := False,
          failedMessage := extractVTPassErrorMessage resp,
          effects := effects s @
            [ToastError (js_or (Some (extractVTPassErrorMessage resp))
               ''Retry failed. Please try again.'')]\<rparr>)"

text \<open>
  The call of \<open>makePurchase\<close> from either handler, up to its \<open>await\<close>; \<open>retry\<close> tells
  which handler calls.
\<close>

definition electricity_makePurchase ::
  "bool \<Rightarrow> bool \<Rightarrow> purchase_data \<Rightarrow> electricity_page \<Rightarrow> electricity_page" where
  "electricity_makePurchase isAuthenticated retry purchaseData s =
     (if isAuthenticated then
        s\<lparr>submitted := purchaseData # submitted s,
          in_flight := in_flight s @ [(purchaseData, retry)]\<rparr>
      else if retry then
        handleRetry_resume (fst makePurchase_unauthenticated)
          (s\<lparr>effects := effects s @ snd makePurchase_unauthenticated\<rparr>)
      else
        electricity_handlePurchase_resume purchaseData (fst makePurchase_unauthenticated)
          (s\<lparr>effects := effects s @ snd makePurchase_unauthenticated\<rparr>))"

text \<open>The checks at the head of \<open>handlePurchase\<close>, in the order of the source.\<close>

datatype electricity_validation =
    EMissingField
  | EInvalidAmount
  | EInsufficientBalance
  | EInvalidPhone
  | EInvalidEmail
  | EInvalidPin
  | EInvalidProvider
  | EValid

definition electricity_handlePurchase ::
  "bool \<Rightarrow> electricity_validation \<Rightarrow> purchase_data \<Rightarrow> nat \<Rightarrow> string \<Rightarrow>
   electricity_page \<Rightarrow> electricity_page" where
  "electricity_handlePurchase isAuthenticated v form timestamp random36 s =
     (case v of
        EMissingField \<Rightarrow> s\<lparr>effects := effects s @ [ToastError ''Please fill all required fields'']\<rparr>
      | EInvalidAmount \<Rightarrow> s\<lparr>effects := effects s @ [ToastError ''Please enter a valid amount'']\<rparr>
      | EInsufficientBalance \<Rightarrow>
          s\<lparr>effects := effects s @ [ToastError ''Insufficient balance. Please fund your wallet.'']\<rparr>
      | EInvalidPhone \<Rightarrow> s\<lparr>effects := effects s @ [ToastError ''Please enter a valid phone number'']\<rparr>
      | EInvalidEmail \<Rightarrow> s\<lparr>effects := effects s @ [ToastError ''Please enter a valid email address'']\<rparr>
      | EInvalidPin \<Rightarrow>
          s\<lparr>effects := effects s @ [ToastError ''Please enter your 4-digit transaction PIN'']\<rparr>
      | EInvalidProvider \<Rightarrow> s\<lparr>effects := effects s @ [ToastError ''Invalid provider or meter type'']\<rparr>
      | EValid \<Rightarrow>
          electricity_makePurchase isAuthenticated False
            (form\<lparr>transaction_type := ''electricity'',
               request_id := Some (generateUniqueRequestId ''electricity'' timestamp random36)\<rparr>)
            (s\<lparr>isPurchasing := True, transactionFailed := False,
               transactionSuccessful := False, errorMessage := [], failedMessage := []\<rparr>))"

definition handleRetry ::
  "bool \<Rightarrow> nat \<Rightarrow> string \<Rightarrow> electricity_page \<Rightarrow> electricity_page" where
  "handleRetry isAuthenticated timestamp random36 s =
     (case failedTransaction s of
        None \<Rightarrow> s
      | Some failed \<Rightarrow>
          electricity_makePurchase isAuthenticated True
            (failed\<lparr>request_id := Some (generateUniqueRequestId ''elect-retry'' timestamp random36)\<rparr>)
            (s\<lparr>isPurchasing := True, transactionFailed := False, errorMessage := []\<rparr>))"

definition electricity_settle ::
  "nat \<Rightarrow> js_error + raw_response option \<Rightarrow> electricity_page \<Rightarrow> electricity_page" where
  "electricity_settle i outcome s =
     (if i < length (in_flight s) then
        (if snd (in_flight s ! i) then
           handleRetry_resume (fst (makePurchase_resume outcome))
             (s\<lparr>in_flight := take i (in_flight s) @ drop (Suc i) (in_flight s),
                effects := effects s @ snd (makePurchase_resume outcome)\<rparr>)
         else
           electricity_handlePurchase_resume (fst (in_flight s ! i))
             (fst (makePurchase_resume outcome))
             (s\<lparr>in_flight := take i (in_flight s) @ drop (Suc i) (in_flight s),
                effects := effects s @ snd (makePurchase_resume outcome)\<rparr>))
      else s)"

text \<open>
  The page renders the success card when \<open>transactionSuccessful\<close>, else the error card
  when \<open>transactionFailed\<close>, else the form. The payment button of the form is disabled
  while \<open>isPurchasing\<close> (and while the amount or the PIN is empty, which the checks of
  \<open>handlePurchase\<close> reject as well); the retry button of the error card is disabled only
  when there is no \<open>failedTransaction\<close>; both cards have a button for \<open>resetForm\<close>.
\<close>

datatype electricity_event =
    ClickPay electricity_validation purchase_data nat string
  | ClickRetry nat string
  | ClickReset
  | ESettles nat "js_error + raw_response option"

definition electricity_ui ::
  "bool \<Rightarrow> electricity_event \<Rightarrow> electricity_page \<Rightarrow> electricity_page" where
  "electricity_ui isAuthenticated ev s =
     (case ev of
        ClickPay v form timestamp random36 \<Rightarrow>
          if transactionSuccessful s \<or> transactionFailed s \<or> isPurchasing s then s
          else electricity_handlePurchase isAuthenticated v form timestamp random36 s
      | ClickRetry timestamp random36 \<Rightarrow>
          if \<not> transactionSuccessful s \<and> transactionFailed s \<and> failedTransaction s \<noteq> None
          then handleRetry isAuthenticated timestamp random36 s
          else s
      | ClickReset \<Rightarrow>
          if transactionSuccessful s \<or> transactionFailed s then resetForm s else s
      | ESettles i outcome \<Rightarrow> electricity_settle i outcome s)"

fun electricity_run ::
  "bool \<Rightarrow> electricity_event list \<Rightarrow> electricity_page \<Rightarrow> electricity_page" where
  "electricity_run isAuthenticated [] s = s"
| "electricity_run isAuthenticated (ev # evs) s =
     electricity_run isAuthenticated evs (electricity_ui isAuthenticated ev s)"

section \<open>Invariants of the airtime page\<close>

text \<open>
  The attempts of the purchase under way are bounded through the retry count; a call in
  flight keeps \<open>isPurchasing\<close> set and carries no timer that saw \<open>isPurchasing\<close> set;
  the request ids submitted are pairwise different and built from the clock readings
  \<open>T\<close>.
\<close>

definition attempts_inv :: "airtime_page \<Rightarrow> bool" where
  "attempts_inv s \<longleftrightarrow>
     length (current_session (submitted s)) \<le> 1 + retryCount s \<and> retryCount s \<le> 3"

definition flight_inv :: "airtime_page \<Rightarrow> bool" where
  "flight_inv s \<longleftrightarrow>
     (in_flight s = [] \<or>
      (isPurchasing s \<and> length (in_flight s) = 1 \<and> snd (hd (in_flight s)) \<noteq> Some True))"

definition keys_inv :: "purchase_data list \<Rightarrow> nat set \<Rightarrow> bool" where
  "keys_inv subm T \<longleftrightarrow>
     distinct (map request_id subm) \<and>
     (\<forall>d \<in> set subm. \<exists>p t r. request_id d = Some (generateUniqueRequestId p t r) \<and>
        (p = ''air'' \<or> p = ''air-retry'') \<and> t \<in> T)"

section \<open>Example inputs\<close>

text \<open>A filled form, and responses of the shapes that the examples below go through.\<close>

definition sample_form :: purchase_data where
  "sample_form = \<lparr>service_id = ''mtn'', variation_code = None, amount = ''100'',
     phone = ''08012345678'', email = ''user@example.com'', pin = ''1234'',
     transaction_type = ''airtime'', request_id = None, auto_retry = Some False,
     billersCode = None, retryCount_field = None\<rparr>"

text \<open>\<^verbatim>\<open>{code: "016"}\<close>\<close>

definition failed_016 :: raw_response where
  "failed_016 = empty_response\<lparr>code := Some ''016''\<rparr>"

text \<open>\<^verbatim>\<open>{code: "014"}\<close>\<close>

definition response_014 :: raw_response where
  "response_014 = empty_response\<lparr>code := Some ''014''\<rparr>"

text \<open>\<^verbatim>\<open>{code: "016", response_description: "TRANSACTION UNSUCCESSFUL"}\<close>\<close>

definition unsuccessful_016 :: raw_response where
  "unsuccessful_016 =
     empty_response\<lparr>code := Some ''016'', response_description := Some ''TRANSACTION UNSUCCESSFUL''\<rparr>"

text \<open>\<^verbatim>\<open>{content: {transactions: {status: "delivered"}}}\<close>\<close>

definition delivered_only :: raw_response where
  "delivered_only =
     empty_response\<lparr>content :=
       Some \<lparr>transactions = Some \<lparr>status = Some ''delivered'', product_name = None\<rparr>\<rparr>\<rparr>"

text \<open>\<^verbatim>\<open>{response: {code: "000"}}\<close>\<close>

definition nested_000 :: raw_response where
  "nested_000 =
     empty_response\<lparr>response :=
       Some \<lparr>code = Some ''000'', response_description = None, content = None,
             error_message = None, suggested_action = None, transaction = None\<rparr>\<rparr>"


section \<open>Strings and request ids\<close>

declare dec.simps [simp del]

lemmas airtime_defs =
  airtime_ui_def handlePurchase_def handlePurchaseWithData_def
  handlePurchaseWithData_resume_def handleRetryTransaction_def airtime_settle_def
  purchaseTimeout_def clearFailedState_def

lemmas electricity_defs =
  electricity_ui_def electricity_handlePurchase_def handleRetry_def
  electricity_makePurchase_def electricity_settle_def
  electricity_handlePurchase_resume_def handleRetry_resume_def resetForm_def

lemmas pipeline_defs =
  makePurchase_resume_def purchaseService_def purchaseService_catch_def is_delivered_def
  transactions_status_def transaction_status_def transactions_product_name_def
  isVTPassSuccess_def truthy_def opt_includes_def errorResponse_def as_raw_def

text \<open>\<open>str_includes\<close> is the substring relation of the library.\<close>

lemma str_includes_sublist: "str_includes s n \<longleftrightarrow> sublist n s"
proof (induction s)
  case Nil
  then show ?case by simp
next
  case (Cons c cs)
  then show ?case by (cases n) (simp_all add: sublist_Cons_right)
qed

lemma when_truthy_nonempty:
  "(\<And>x. x \<noteq> [] \<Longrightarrow> f x \<noteq> []) \<Longrightarrow> g \<noteq> [] \<Longrightarrow> when_truthy v f g \<noteq> []"
  by (simp add: when_truthy_def split: option.splits)

lemma js_or_nonempty: "dflt \<noteq> [] \<Longrightarrow> js_or v dflt \<noteq> []"
  by (simp add: js_or_def split: option.splits)

lemma digit_char_simps:
  "digit_char 0 = CHR ''0''" "digit_char 1 = CHR ''1''" "digit_char 2 = CHR ''2''"
  "digit_char 3 = CHR ''3''" "digit_char 4 = CHR ''4''" "digit_char 5 = CHR ''5''"
  "digit_char 6 = CHR ''6''" "digit_char 7 = CHR ''7''" "digit_char 8 = CHR ''8''"
  "digit_char 9 = CHR ''9''" "digit_char (Suc 0) = CHR ''1''"
  by (simp_all add: digit_char_def numeral_nat)

lemma digit_cases:
  "d < 10 \<Longrightarrow>
   d = 0 \<or> d = 1 \<or> d = 2 \<or> d = 3 \<or> d = 4 \<or> d = 5 \<or> d = 6 \<or> d = 7 \<or> d = 8 \<or> d = (9::nat)"
  by arith

lemma digit_char_inj:
  assumes "a < 10" "b < 10" "digit_char a = digit_char b"
  shows "a = b"
  using digit_cases [OF assms(1)] digit_cases [OF assms(2)] assms(3)
  by (elim disjE) (simp_all add: digit_char_simps)

lemma digit_char_is_digit:
  assumes "d < 10"
  shows "digit_char d \<in> set ''0123456789''"
  using digit_cases [OF assms] by (elim disjE) (simp_all add: digit_char_simps)

lemma dec_digits: "set (dec n) \<subseteq> set ''0123456789''"
proof (induction n rule: dec.induct)
  case (1 n)
  show ?case
  proof (cases "n < 10")
    case True
    then show ?thesis using digit_char_is_digit [of n] by (simp add: dec.simps [of n])
  next
    case False
    then show ?thesis using "1.IH" digit_char_is_digit [of "n mod 10"]
      by (simp add: dec.simps [of n])
  qed
qed

lemma dec_no_dash: "CHR ''-'' \<notin> set (dec n)"
  using dec_digits [of n] by auto

lemma dec_nonempty: "dec n \<noteq> []"
  by (simp add: dec.simps [of n])

text \<open>The decimal rendering determines the number.\<close>

lemma dec_inj: "dec m = dec n \<Longrightarrow> m = n"
proof (induction m arbitrary: n rule: dec.induct)
  case (1 m)
  show ?case
  proof (cases "m < 10")
    case m: True
    show ?thesis
    proof (cases "n < 10")
      case True
      with m "1.prems" show ?thesis
        by (simp add: dec.simps [of m] dec.simps [of n] digit_char_inj)
    next
      case False
      with m "1.prems" show ?thesis
        using dec_nonempty [of "n div 10"]
        by (simp add: dec.simps [of m] dec.simps [of n])
    qed
  next
    case m: False
    show ?thesis
    proof (cases "n < 10")
      case True
      with m "1.prems" show ?thesis
        using dec_nonempty [of "m div 10"]
        by (simp add: dec.simps [of m] dec.simps [of n])
    next
      case False
      with m "1.prems" have eq: "dec (m div 10) = dec (n div 10)"
        and dg: "digit_char (m mod 10) = digit_char (n mod 10)"
        by (simp_all add: dec.simps [of m] dec.simps [of n])
      from "1.IH" [OF m eq] have "m div 10 = n div 10" .
      moreover from dg have "m mod 10 = n mod 10"
        by (simp add: digit_char_inj)
      ultimately show ?thesis
        by (metis div_mult_mod_eq)
    qed
  qed
qed

lemma split_at_dash:
  assumes "CHR ''-'' \<notin> set a" "CHR ''-'' \<notin> set b"
    and "a @ CHR ''-'' # x = b @ CHR ''-'' # y"
  shows "a = b \<and> x = y"
proof -
  have "takeWhile (\<lambda>c. c \<noteq> CHR ''-'') (a @ CHR ''-'' # x) = a"
    using assms(1) by (auto simp: takeWhile_tail takeWhile_eq_all_conv)
  moreover have "takeWhile (\<lambda>c. c \<noteq> CHR ''-'') (b @ CHR ''-'' # y) = b"
    using assms(2) by (auto simp: takeWhile_tail takeWhile_eq_all_conv)
  ultimately have "a = b" using assms(3) by simp
  with assms(3) show ?thesis by simp
qed

text \<open>
  Under one prefix two request ids are equal exactly when the clock readings and the
  characters kept of the random strings are.
\<close>

lemma request_id_eq_iff:
  "generateUniqueRequestId p t1 r1 = generateUniqueRequestId p t2 r2 \<longleftrightarrow>
     t1 = t2 \<and> take 5 (drop 2 r1) = take 5 (drop 2 r2)"
proof
  assume "generateUniqueRequestId p t1 r1 = generateUniqueRequestId p t2 r2"
  then have "dec t1 @ CHR ''-'' # take 5 (drop 2 r1) = dec t2 @ CHR ''-'' # take 5 (drop 2 r2)"
    by (simp add: generateUniqueRequestId_def)
  from split_at_dash [OF dec_no_dash dec_no_dash this]
  show "t1 = t2 \<and> take 5 (drop 2 r1) = take 5 (drop 2 r2)"
    by (auto dest: dec_inj)
next
  assume "t1 = t2 \<and> take 5 (drop 2 r1) = take 5 (drop 2 r2)"
  then show "generateUniqueRequestId p t1 r1 = generateUniqueRequestId p t2 r2"
    by (simp add: generateUniqueRequestId_def)
qed

lemma dec_not_retry: "dec t @ x \<noteq> CHR ''r'' # y"
proof (cases "dec t")
  case Nil
  then show ?thesis using dec_nonempty by simp
next
  case (Cons c cs)
  then have "c \<in> set ''0123456789''" using dec_digits [of t] by auto
  then have "c \<noteq> CHR ''r''" by auto
  with Cons show ?thesis by simp
qed

lemma gen_air_retry_differ:
  "generateUniqueRequestId ''air'' t r \<noteq> generateUniqueRequestId ''air-retry'' t' r'"
  using dec_not_retry [of t] by (simp add: generateUniqueRequestId_def)

lemma gen_time:
  assumes "p = ''air'' \<or> p = ''air-retry''" "p' = ''air'' \<or> p' = ''air-retry''"
    and "generateUniqueRequestId p t r = generateUniqueRequestId p' t' r'"
  shows "t = t'"
proof (cases "p = p'")
  case True
  with assms(3) show ?thesis by (simp add: request_id_eq_iff)
next
  case False
  with assms show ?thesis
    using gen_air_retry_differ [of t r t' r'] gen_air_retry_differ [of t' r' t r] by auto
qed

text \<open>
  The ids that the data page builds for its retries: equal ids were built at the same
  clock reading, and none equals an id that the generator made under the prefix \<open>data\<close>.
\<close>

lemma data_retry_request_id_time:
  assumes "data_retry_request_id t c r = data_retry_request_id t' c' r'"
  shows "t = t'"
proof -
  from assms have
    "dec t @ CHR ''-'' # (''retry-'' @ dec c @ take 5 (drop 2 r)) =
     dec t' @ CHR ''-'' # (''retry-'' @ dec c' @ take 5 (drop 2 r'))"
    by (simp add: data_retry_request_id_def)
  from split_at_dash [OF dec_no_dash dec_no_dash this] show ?thesis
    by (auto dest: dec_inj)
qed

lemma data_retry_differs_from_first:
  "data_retry_request_id t c r \<noteq> generateUniqueRequestId ''data'' t' r'"
proof
  assume "data_retry_request_id t c r = generateUniqueRequestId ''data'' t' r'"
  then have
    "dec t @ CHR ''-'' # (''retry-'' @ dec c @ take 5 (drop 2 r)) =
     dec t' @ CHR ''-'' # take 5 (drop 2 r')"
    by (simp add: data_retry_request_id_def generateUniqueRequestId_def)
  from split_at_dash [OF dec_no_dash dec_no_dash this]
  have "''retry-'' @ dec c @ take 5 (drop 2 r) = take 5 (drop 2 r')" by simp
  then have "length (''retry-'' @ dec c @ take 5 (drop 2 r)) = length (take 5 (drop 2 r'))"
    by simp
  then show False by simp
qed

section \<open>The error message is never empty\<close>

lemma switch_code_nonempty:
  "m \<noteq> [] \<Longrightarrow> (case switch_code c d m of Inl x \<Rightarrow> x \<noteq> [] | Inr y \<Rightarrow> y \<noteq> [])"
  by (simp add: switch_code_def)

lemma extract_nonempty: "extractVTPassErrorMessage r \<noteq> []"
proof -
  let ?c = "Option.bind r code"
  let ?d = "Option.bind r response_description"
  let ?e = "Option.bind r error_message"
  let ?a = "Option.bind r suggested_action"
  let ?m = "when_truthy ?e (\<lambda>m. m)
              (when_truthy ?d (\<lambda>m. m) ''An error occurred with your transaction.'')"
  have m: "?m \<noteq> []"
    by (intro when_truthy_nonempty) simp_all
  have sw: "case switch_code ?c ?d ?m of Inl x \<Rightarrow> x \<noteq> [] | Inr y \<Rightarrow> y \<noteq> []"
    using m by (rule switch_code_nonempty)
  show ?thesis
  proof (cases "switch_code ?c ?d ?m")
    case (Inl x)
    with sw show ?thesis by (simp add: extractVTPassErrorMessage_def Let_def)
  next
    case (Inr y)
    with sw have "y \<noteq> []" by simp
    then have "when_truthy ?a (\<lambda>action. y @ '' '' @ action) y \<noteq> []"
      by (intro when_truthy_nonempty) simp_all
    with Inr show ?thesis by (simp add: extractVTPassErrorMessage_def Let_def)
  qed
qed

lemma airtime_extract_nonempty: "airtime_extractVTPassErrorMessage r \<noteq> []"
  by (simp add: airtime_extractVTPassErrorMessage_def when_truthy_def js_or_def
      split: option.splits)

section \<open>What the example responses become\<close>

lemma failed_016_resume:
  "makePurchase_resume (Inr (Some failed_016)) =
     (Some failed_016, [ToastInfo ''Purchase is being processed. Check transactions for updates.''])"
  by (simp add: pipeline_defs failed_016_def empty_response_def)

lemma failed_016_not_success: "\<not> isVTPassSuccess (Some failed_016)"
  by (simp add: pipeline_defs failed_016_def empty_response_def)

lemma delivered_only_resume:
  "makePurchase_resume (Inr (Some delivered_only)) =
     (Some delivered_only, [ToastInfo ''Purchase is being processed. Check transactions for updates.''])"
  by (simp add: pipeline_defs delivered_only_def empty_response_def)

lemma delivered_only_not_success: "\<not> isVTPassSuccess (Some delivered_only)"
  by (simp add: pipeline_defs delivered_only_def empty_response_def)



text \<open>
  Responses that the purchase call does hand to the page as a success: a code \<open>000\<close> or
  \<open>01\<close> at the top, and a code \<open>000\<close> one level down.
\<close>

lemma top_level_code_is_success:
  "code r = Some ''000'' \<or> code r = Some ''01'' \<Longrightarrow>
   isVTPassSuccess (fst (makePurchase_resume (Inr (Some r))))"
  by (auto simp: makePurchase_resume_def purchaseService_def isVTPassSuccess_def)

lemma nested_code_000_is_success:
  "isVTPassSuccess (fst (makePurchase_resume (Inr (Some nested_000))))"
  by (simp add: pipeline_defs nested_000_def empty_response_def)

section \<open>The airtime page keeps its invariants\<close>

lemma attempts_inv_step: "attempts_inv s \<Longrightarrow> attempts_inv (airtime_ui True ev s)"
  by (auto simp: attempts_inv_def airtime_defs
      split: airtime_event.splits validation.splits option.splits)

lemma attempts_inv_run: "attempts_inv s \<Longrightarrow> attempts_inv (airtime_run True evs s)"
  by (induction evs arbitrary: s) (simp_all add: attempts_inv_step)

lemma unauth_step: "submitted s = [] \<Longrightarrow> submitted (airtime_ui False ev s) = []"
  by (auto simp: airtime_defs
      split: airtime_event.splits validation.splits option.splits)

lemma unauth_run: "submitted s = [] \<Longrightarrow> submitted (airtime_run False evs s) = []"
  by (induction evs arbitrary: s) (simp_all add: unauth_step)

lemma flight_inv_step: "flight_inv s \<Longrightarrow> flight_inv (airtime_ui auth ev s)"
  by (auto simp: flight_inv_def airtime_defs length_Suc_conv
      split: airtime_event.splits validation.splits option.splits)

lemma flight_inv_run: "flight_inv s \<Longrightarrow> flight_inv (airtime_run auth evs s)"
  by (induction evs arbitrary: s) (simp_all add: flight_inv_step)

text \<open>
  The bound on the attempts is the button's: \<open>handleRetryTransaction\<close> does not look at
  the count, and called after three failed retries it submits a fifth time.
\<close>

lemma handleRetryTransaction_ignores_count:
  "length (current_session (submitted (handleRetryTransaction True 5 ''0.abcde''
     (airtime_run True
        [ClickBuy Valid sample_form 1 ''0.abcde'', Settles 0 (Inr (Some failed_016)),
         ClickTryAgain 2 ''0.abcde'', Settles 0 (Inr (Some failed_016)),
         ClickTryAgain 3 ''0.abcde'', Settles 0 (Inr (Some failed_016)),
         ClickTryAgain 4 ''0.abcde'', Settles 0 (Inr (Some failed_016))] airtime_init)))) = 5"
  by (simp add: airtime_defs airtime_init_def failed_016_resume failed_016_not_success)

lemma flight_inv_init: "flight_inv airtime_init"
  by (simp add: flight_inv_def airtime_init_def)

text \<open>An event adds at most one submission, with an id made from its clock reading.\<close>

lemma ui_submitted:
  "submitted (airtime_ui auth ev s) = submitted s \<or>
   (\<exists>d p t r. submitted (airtime_ui auth ev s) = d # submitted s \<and>
      request_id d = Some (generateUniqueRequestId p t r) \<and>
      (p = ''air'' \<or> p = ''air-retry'') \<and> clock_readings [ev] = [t])"
  by (cases ev)
     (auto simp: airtime_defs split: validation.splits option.splits)

lemma keys_inv_push:
  assumes inv: "keys_inv subm T" and fresh: "t \<notin> T"
    and p: "p = ''air'' \<or> p = ''air-retry''"
    and d: "request_id d = Some (generateUniqueRequestId p t r)"
  shows "keys_inv (d # subm) (insert t T)"
proof -
  have "request_id d \<notin> set (map request_id subm)"
  proof
    assume "request_id d \<in> set (map request_id subm)"
    then obtain d' where d': "d' \<in> set subm" "request_id d' = request_id d" by auto
    with inv obtain p' t' r' where
      "request_id d' = Some (generateUniqueRequestId p' t' r')"
      "p' = ''air'' \<or> p' = ''air-retry''" "t' \<in> T"
      unfolding keys_inv_def by blast
    with d d' p have "t = t'" using gen_time [of p p' t r t' r'] by simp
    with \<open>t' \<in> T\<close> fresh show False by simp
  qed
  moreover have "\<exists>p t' r. request_id e = Some (generateUniqueRequestId p t' r) \<and>
        (p = ''air'' \<or> p = ''air-retry'') \<and> t' \<in> insert t T" if "e \<in> set (d # subm)" for e
  proof (cases "e = d")
    case True
    with d p show ?thesis by blast
  next
    case False
    with that have "e \<in> set subm" by simp
    with inv show ?thesis unfolding keys_inv_def by blast
  qed
  ultimately show ?thesis using inv unfolding keys_inv_def by simp
qed

lemma clock_readings_Cons: "clock_readings (ev # evs) = clock_readings [ev] @ clock_readings evs"
  by (cases ev) simp_all

lemma keys_inv_run:
  "keys_inv (submitted s) T \<Longrightarrow> distinct (clock_readings evs) \<Longrightarrow>
   set (clock_readings evs) \<inter> T = {} \<Longrightarrow>
   \<exists>T'. keys_inv (submitted (airtime_run auth evs s)) T'"
proof (induction evs arbitrary: s T)
  case Nil
  then show ?case by auto
next
  case (Cons ev evs)
  have split: "clock_readings (ev # evs) = clock_readings [ev] @ clock_readings evs"
    by (rule clock_readings_Cons)
  from Cons.prems(2) split have dist: "distinct (clock_readings evs)" by simp
  from Cons.prems(3) split have disj: "set (clock_readings evs) \<inter> T = {}" by auto
  consider (same) "submitted (airtime_ui auth ev s) = submitted s"
    | (push) d p t r where "submitted (airtime_ui auth ev s) = d # submitted s"
        "request_id d = Some (generateUniqueRequestId p t r)"
        "p = ''air'' \<or> p = ''air-retry''" "clock_readings [ev] = [t]"
    using ui_submitted [of auth ev s] by blast
  then show ?case
  proof cases
    case same
    with Cons.prems(1) have "keys_inv (submitted (airtime_ui auth ev s)) T" by simp
    from Cons.IH [OF this dist disj] show ?thesis by simp
  next
    case push
    from push(4) Cons.prems(2,3) split have fresh: "t \<notin> T" "t \<notin> set (clock_readings evs)"
      by auto
    have "keys_inv (submitted (airtime_ui auth ev s)) (insert t T)"
      using keys_inv_push [OF Cons.prems(1) fresh(1) push(3) push(2)] push(1) by simp
    moreover have "set (clock_readings evs) \<inter> insert t T = {}"
      using disj fresh(2) by auto
    ultimately show ?thesis using Cons.IH [OF _ dist] by simp
  qed
qed

section \<open>The claims\<close>

subsection \<open>C1: success markers\<close>

text \<open>
  Claim C1: every raw response with a success marker at a recognised path is normalised
  to the Success outcome, whatever else it holds; in particular the nested response
  \<^verbatim>\<open>{response: {code: "000"}}\<close> is. The code decides the outcome in two places:
  \<open>purchaseService\<close> recognises the status \<open>delivered\<close> or \<open>successful\<close> under
  \<open>content.transactions\<close> as a success and returns the response, but \<open>isVTPassSuccess\<close>,
  by which the page chooses its branch, looks at the code and the description only. At
  the response \<^verbatim>\<open>{content: {transactions: {status: "delivered"}}}\<close> the first says
  success and the page shows a failed transaction.
\<close>

theorem delivered_status_shown_as_failure:
  "is_delivered (transactions_status delivered_only) \<and>
   purchaseService (Inr (Some delivered_only)) = Inr (Some delivered_only) \<and>
   \<not> isVTPassSuccess (fst (makePurchase_resume (Inr (Some delivered_only)))) \<and>
   transactionFailed (airtime_run True
      [ClickBuy Valid sample_form 1 ''0.abcde'', Settles 0 (Inr (Some delivered_only))]
      airtime_init) \<and>
   \<not> transactionSuccessful (airtime_run True
      [ClickBuy Valid sample_form 1 ''0.abcde'', Settles 0 (Inr (Some delivered_only))]
      airtime_init)"
  by (simp add: airtime_defs airtime_init_def delivered_only_resume delivered_only_not_success)
     (simp add: pipeline_defs delivered_only_def empty_response_def)

subsection \<open>C2: a description that contains SUCCESSFUL\<close>

text \<open>
  Claim C2: whenever the \<open>response_description\<close> of a response contains the substring
  \<open>SUCCESSFUL\<close>, as \<open>TRANSACTION UNSUCCESSFUL\<close> does, \<open>isVTPassSuccess\<close> is true whatever
  the code is, and the airtime purchase handler takes its success branch: it marks the
  transaction successful, shows a success toast and refreshes the balance.
\<close>

theorem description_with_SUCCESSFUL_is_success:
  assumes "str_includes d ''SUCCESSFUL''"
  shows "isVTPassSuccess (Some (r\<lparr>response_description := Some d\<rparr>)) \<and>
         handlePurchaseWithData_resume purchaseData (Some (r\<lparr>response_description := Some d\<rparr>)) s =
           s\<lparr>transactionSuccessful := True, isPurchasing := False,
             effects := effects s @
               [ToastSuccess (successMessage purchaseData (Some (r\<lparr>response_description := Some d\<rparr>))),
                FetchBalance]\<rparr>"
proof -
  from assms have "d \<noteq> []" by (cases d) simp_all
  with assms have "isVTPassSuccess (Some (r\<lparr>response_description := Some d\<rparr>))"
    by (simp add: isVTPassSuccess_def truthy_def opt_includes_def)
  then show ?thesis by (simp add: handlePurchaseWithData_resume_def)
qed

text \<open>
  The response \<^verbatim>\<open>{code: "016", response_description: "TRANSACTION UNSUCCESSFUL"}\<close>
  is such a one, and the page that receives it shows a successful purchase.
\<close>

theorem description_with_SUCCESSFUL_is_success_witness:
  "str_includes ''TRANSACTION UNSUCCESSFUL'' ''SUCCESSFUL'' \<and>
   failed_016\<lparr>response_description := Some ''TRANSACTION UNSUCCESSFUL''\<rparr> = unsuccessful_016 \<and>
   isVTPassSuccess (Some unsuccessful_016) \<and>
   transactionSuccessful (handlePurchaseWithData_resume sample_form (Some unsuccessful_016) airtime_init) \<and>
   transactionSuccessful (airtime_run True
     [ClickBuy Valid sample_form 1 ''0.abcde'', Settles 0 (Inr (Some unsuccessful_016))]
     airtime_init)"
proof -
  have inc: "str_includes ''TRANSACTION UNSUCCESSFUL'' ''SUCCESSFUL''" by simp
  have eq: "failed_016\<lparr>response_description := Some ''TRANSACTION UNSUCCESSFUL''\<rparr> = unsuccessful_016"
    by (simp add: failed_016_def unsuccessful_016_def)
  have r: "makePurchase_resume (Inr (Some unsuccessful_016)) =
     (Some unsuccessful_016, [ToastInfo ''Purchase is being processed. Check transactions for updates.''])"
    by (simp add: pipeline_defs unsuccessful_016_def empty_response_def)
  from description_with_SUCCESSFUL_is_success [OF inc, of failed_016]
  have s: "isVTPassSuccess (Some unsuccessful_016)"
    and h: "\<And>purchaseData s. transactionSuccessful
              (handlePurchaseWithData_resume purchaseData (Some unsuccessful_016) s)"
    using eq by simp_all
  have "transactionSuccessful (airtime_run True
     [ClickBuy Valid sample_form 1 ''0.abcde'', Settles 0 (Inr (Some unsuccessful_016))]
     airtime_init)"
    by (simp add: airtime_ui_def handlePurchase_def handlePurchaseWithData_def
        airtime_settle_def clearFailedState_def airtime_init_def r h)
  with inc eq s h show ?thesis by simp
qed

subsection \<open>C3: the retry ceiling\<close>

text \<open>
  Claim C3: a purchase session never has more than \<open>MAX_RETRIES + 1\<close> attempts, on every
  purchase page. The electricity page keeps no retry count: its retry button stays
  enabled after every failure, and one payment followed by five failed retries has
  submitted six times.
\<close>

theorem electricity_retries_unbounded:
  "\<not> length (submitted (electricity_run True
     [ClickPay EValid sample_form 1 ''0.abcde'', ESettles 0 (Inr (Some failed_016)),
      ClickRetry 2 ''0.abcde'', ESettles 0 (Inr (Some failed_016)),
      ClickRetry 3 ''0.abcde'', ESettles 0 (Inr (Some failed_016)),
      ClickRetry 4 ''0.abcde'', ESettles 0 (Inr (Some failed_016)),
      ClickRetry 5 ''0.abcde'', ESettles 0 (Inr (Some failed_016)),
      ClickRetry 6 ''0.abcde''] electricity_init)) \<le> MAX_RETRIES + 1"
  by (simp add: electricity_defs electricity_init_def failed_016_resume failed_016_not_success
      MAX_RETRIES_def)

text \<open>
  Claim C3, amended: on the airtime page, where the retry button is disabled once
  \<open>retryCount\<close> has reached 3, the purchase under way never has more than
  \<open>MAX_RETRIES + 1\<close> submissions, whatever the user clicks and however the calls settle.
\<close>

theorem airtime_attempts_bounded:
  "length (current_session (submitted (airtime_run isAuthenticated evs airtime_init)))
     \<le> MAX_RETRIES + 1"
proof (cases isAuthenticated)
  case True
  have "attempts_inv airtime_init" by (simp add: attempts_inv_def airtime_init_def)
  then have "attempts_inv (airtime_run True evs airtime_init)" by (rule attempts_inv_run)
  with True show ?thesis by (simp add: attempts_inv_def MAX_RETRIES_def)
next
  case False
  have "submitted (airtime_run False evs airtime_init) = []"
    by (rule unauth_run) (simp add: airtime_init_def)
  with False show ?thesis by simp
qed

text \<open>
  The bound is reached: after a purchase and three failed retries a further click on the
  retry button submits nothing.
\<close>

theorem airtime_attempts_bounded_witness:
  "length (current_session (submitted (airtime_run True
     [ClickBuy Valid sample_form 1 ''0.abcde'', Settles 0 (Inr (Some failed_016)),
      ClickTryAgain 2 ''0.abcde'', Settles 0 (Inr (Some failed_016)),
      ClickTryAgain 3 ''0.abcde'', Settles 0 (Inr (Some failed_016)),
      ClickTryAgain 4 ''0.abcde'', Settles 0 (Inr (Some failed_016)),
      ClickTryAgain 5 ''0.abcde''] airtime_init))) = 4 \<and>
   length (current_session (submitted (airtime_run True
     [ClickBuy Valid sample_form 1 ''0.abcde'', Settles 0 (Inr (Some failed_016)),
      ClickTryAgain 2 ''0.abcde'', Settles 0 (Inr (Some failed_016)),
      ClickTryAgain 3 ''0.abcde'', Settles 0 (Inr (Some failed_016)),
      ClickTryAgain 4 ''0.abcde'', Settles 0 (Inr (Some failed_016)),
      ClickTryAgain 5 ''0.abcde''] airtime_init))) \<le> MAX_RETRIES + 1"
  using airtime_attempts_bounded [of True
     "[ClickBuy Valid sample_form 1 ''0.abcde'', Settles 0 (Inr (Some failed_016)),
      ClickTryAgain 2 ''0.abcde'', Settles 0 (Inr (Some failed_016)),
      ClickTryAgain 3 ''0.abcde'', Settles 0 (Inr (Some failed_016)),
      ClickTryAgain 4 ''0.abcde'', Settles 0 (Inr (Some failed_016)),
      ClickTryAgain 5 ''0.abcde'']"]
  by (simp add: airtime_defs airtime_init_def failed_016_resume failed_016_not_success)

subsection \<open>C4: one request id per attempt\<close>

text \<open>
  Claim C4: no two attempts of a session carry the same request id. Every retry does
  take a new id from the generator, but the id is made of the clock reading and five
  random characters: two retries that read the same clock value and draw the same
  characters submit the same id.
\<close>

theorem airtime_retries_share_request_id:
  "\<not> distinct (map request_id (submitted (airtime_run True
     [ClickBuy Valid sample_form 1 ''0.abcde'', Settles 0 (Inr (Some failed_016)),
      ClickTryAgain 2 ''0.fghij'', Settles 0 (Inr (Some failed_016)),
      ClickTryAgain 2 ''0.fghij''] airtime_init)))"
  by (simp add: airtime_defs airtime_init_def failed_016_resume failed_016_not_success)

text \<open>
  Claim C4, amended: when the clock readings of the clicks are pairwise different, the
  request ids of all submissions of the airtime page are pairwise different.
\<close>

theorem airtime_request_ids_distinct:
  assumes "distinct (clock_readings evs)"
  shows "distinct (map request_id (submitted (airtime_run isAuthenticated evs airtime_init)))"
proof -
  have "keys_inv (submitted airtime_init) {}"
    by (simp add: keys_inv_def airtime_init_def)
  from keys_inv_run [OF this assms] obtain T' where
    "keys_inv (submitted (airtime_run isAuthenticated evs airtime_init)) T'" by auto
  then show ?thesis by (simp add: keys_inv_def)
qed

theorem airtime_request_ids_distinct_witness:
  "distinct (clock_readings
     [ClickBuy Valid sample_form 1 ''0.abcde'', Settles 0 (Inr (Some failed_016)),
      ClickTryAgain 2 ''0.abcde'', Settles 0 (Inr (Some failed_016)),
      ClickTryAgain 3 ''0.abcde'']) \<and>
   length (submitted (airtime_run True
     [ClickBuy Valid sample_form 1 ''0.abcde'', Settles 0 (Inr (Some failed_016)),
      ClickTryAgain 2 ''0.abcde'', Settles 0 (Inr (Some failed_016)),
      ClickTryAgain 3 ''0.abcde''] airtime_init)) = 3 \<and>
   distinct (map request_id (submitted (airtime_run True
     [ClickBuy Valid sample_form 1 ''0.abcde'', Settles 0 (Inr (Some failed_016)),
      ClickTryAgain 2 ''0.abcde'', Settles 0 (Inr (Some failed_016)),
      ClickTryAgain 3 ''0.abcde''] airtime_init)))"
proof -
  have d: "distinct (clock_readings
     [ClickBuy Valid sample_form 1 ''0.abcde'', Settles 0 (Inr (Some failed_016)),
      ClickTryAgain 2 ''0.abcde'', Settles 0 (Inr (Some failed_016)),
      ClickTryAgain 3 ''0.abcde''])"
    by simp
  have l: "length (submitted (airtime_run True
     [ClickBuy Valid sample_form 1 ''0.abcde'', Settles 0 (Inr (Some failed_016)),
      ClickTryAgain 2 ''0.abcde'', Settles 0 (Inr (Some failed_016)),
      ClickTryAgain 3 ''0.abcde''] airtime_init)) = 3"
    by (simp add: airtime_defs airtime_init_def failed_016_resume failed_016_not_success)
  from d l airtime_request_ids_distinct [OF d, of True] show ?thesis by blast
qed

subsection \<open>C5: one call in flight\<close>

text \<open>
  Claim C5: a second submit on a session whose first call has not resolved is rejected
  and exactly one network call is issued. \<open>handlePurchase\<close> does not look at
  \<open>isPurchasing\<close>: called twice before the first call settles it issues two network
  calls, both in flight.
\<close>

theorem handlePurchase_twice_two_calls:
  "length (in_flight (handlePurchase True Valid sample_form 2 ''0.fghij''
     (handlePurchase True Valid sample_form 1 ''0.abcde'' airtime_init))) = 2 \<and>
   length (submitted (handlePurchase True Valid sample_form 2 ''0.fghij''
     (handlePurchase True Valid sample_form 1 ''0.abcde'' airtime_init))) = 2"
  by (simp add: airtime_defs airtime_init_def)

text \<open>
  Claim C5, amended: on the rendered airtime page, where the purchase and retry buttons
  are disabled while \<open>isPurchasing\<close>, at most one call is in flight at any time, and
  while one is in flight a click on either button changes nothing and issues no call.
\<close>

theorem airtime_single_flight:
  "length (in_flight (airtime_run isAuthenticated evs airtime_init)) \<le> 1 \<and>
   (in_flight (airtime_run isAuthenticated evs airtime_init) \<noteq> [] \<longrightarrow>
      airtime_ui isAuthenticated (ClickBuy v form timestamp random36)
          (airtime_run isAuthenticated evs airtime_init)
        = airtime_run isAuthenticated evs airtime_init \<and>
      airtime_ui isAuthenticated (ClickTryAgain timestamp random36)
          (airtime_run isAuthenticated evs airtime_init)
        = airtime_run isAuthenticated evs airtime_init)"
proof -
  have "flight_inv (airtime_run isAuthenticated evs airtime_init)"
    using flight_inv_init by (rule flight_inv_run)
  then show ?thesis
    by (auto simp: flight_inv_def airtime_ui_def)
qed

theorem airtime_single_flight_witness:
  "in_flight (airtime_run True [ClickBuy Valid sample_form 1 ''0.abcde''] airtime_init) \<noteq> [] \<and>
   airtime_ui True (ClickBuy Valid sample_form 2 ''0.fghij'')
       (airtime_run True [ClickBuy Valid sample_form 1 ''0.abcde''] airtime_init)
     = airtime_run True [ClickBuy Valid sample_form 1 ''0.abcde''] airtime_init \<and>
   length (submitted (airtime_run True [ClickBuy Valid sample_form 1 ''0.abcde''] airtime_init)) = 1"
proof -
  have n: "in_flight (airtime_run True [ClickBuy Valid sample_form 1 ''0.abcde''] airtime_init) \<noteq> []"
    by (simp add: airtime_defs airtime_init_def)
  have l: "length (submitted (airtime_run True [ClickBuy Valid sample_form 1 ''0.abcde''] airtime_init)) = 1"
    by (simp add: airtime_defs airtime_init_def)
  from n l airtime_single_flight
    [of True "[ClickBuy Valid sample_form 1 ''0.abcde'']" Valid sample_form 2 "''0.fghij''"]
  show ?thesis by blast
qed

subsection \<open>C6: the balance refresh\<close>




subsection \<open>C7: the code 014\<close>

text \<open>
  Claim C7: the response \<^verbatim>\<open>{code: "014"}\<close> is a failure with the insufficient-funds
  message, which is not empty; it is neither a success nor pending. The purchase call
  hands the response to the page unchanged, \<open>isVTPassSuccess\<close> is false of it, both
  message functions give their insufficient-funds text and not the pending text, and the
  airtime page ends in the failed state showing that text.
\<close>

theorem code_014_is_insufficient_funds_failure:
  "purchaseService (Inr (Some response_014)) = Inr (Some response_014) \<and>
   fst (makePurchase_resume (Inr (Some response_014))) = Some response_014 \<and>
   \<not> isVTPassSuccess (Some response_014) \<and>
   extractVTPassErrorMessage (Some response_014) =
     ''Insufficient funds in your account. Please add funds and try again.'' \<and>
   extractVTPassErrorMessage (Some response_014) \<noteq> [] \<and>
   extractVTPassErrorMessage (Some response_014) \<noteq>
     ''Transaction is pending. Please wait for confirmation.'' \<and>
   airtime_extractVTPassErrorMessage (Some response_014) =
     ''Insufficient funds at the provider. Please try again later or contact support.'' \<and>
   transactionFailed (airtime_run True
     [ClickBuy Valid sample_form 1 ''0.abcde'', Settles 0 (Inr (Some response_014))]
     airtime_init) \<and>
   \<not> transactionSuccessful (airtime_run True
     [ClickBuy Valid sample_form 1 ''0.abcde'', Settles 0 (Inr (Some response_014))]
     airtime_init) \<and>
   errorMessage (airtime_run True
     [ClickBuy Valid sample_form 1 ''0.abcde'', Settles 0 (Inr (Some response_014))]
     airtime_init) =
     ''Insufficient funds at the provider. Please try again later or contact support.''"
proof -
  have p: "purchaseService (Inr (Some response_014)) = Inr (Some response_014)"
    by (simp add: pipeline_defs response_014_def empty_response_def)
  have m: "makePurchase_resume (Inr (Some response_014)) =
     (Some response_014, [ToastInfo ''Purchase is being processed. Check transactions for updates.''])"
    by (simp add: pipeline_defs response_014_def empty_response_def)
  have n: "\<not> isVTPassSuccess (Some response_014)"
    by (simp add: pipeline_defs response_014_def empty_response_def)
  have e: "extractVTPassErrorMessage (Some response_014) =
     ''Insufficient funds in your account. Please add funds and try again.''"
    by (simp add: extractVTPassErrorMessage_def switch_code_def when_truthy_def opt_includes_def
        response_014_def empty_response_def)
  have a: "airtime_extractVTPassErrorMessage (Some response_014) =
     ''Insufficient funds at the provider. Please try again later or contact support.''"
    by (simp add: airtime_extractVTPassErrorMessage_def when_truthy_def
        response_014_def empty_response_def)
  show ?thesis
    by (simp add: p m n e a airtime_defs airtime_init_def)
qed

subsection \<open>C8: the error message\<close>

text \<open>
  Claim C8: the error classifier is total and its message is never the empty string;
  without any signal it gives a generic message. \<open>extractVTPassErrorMessage\<close> reads its
  argument through optional chaining only, so it returns for every argument, \<open>null\<close>
  included; its result is never empty, and for \<open>null\<close> and for an object without fields
  it is the generic text.
\<close>

theorem extractVTPassErrorMessage_never_empty:
  "extractVTPassErrorMessage r \<noteq> [] \<and>
   extractVTPassErrorMessage (None :: raw_response option) =
     ''An error occurred with your transaction.'' \<and>
   extractVTPassErrorMessage (Some empty_response) =
     ''An error occurred with your transaction.''"
  using extract_nonempty [of r]
  by (simp add: extractVTPassErrorMessage_def switch_code_def when_truthy_def
      empty_response_def)

subsection \<open>C9: two ids from one clock reading\<close>

text \<open>
  Claim C9: two calls of the generator with the same arguments give different strings,
  also when both read the same clock value. With the same clock value the strings differ
  only by the five characters kept of the random string: two random values that agree
  there, here \<open>0.k3x9q2m4tz8\<close> and \<open>0.k3x9q7z1bc5\<close>, give the same id.
\<close>

theorem same_clock_same_request_id:
  "''0.k3x9q2m4tz8'' \<noteq> ''0.k3x9q7z1bc5'' \<and>
   generateUniqueRequestId ''air'' 1730000000000 ''0.k3x9q2m4tz8'' =
   generateUniqueRequestId ''air'' 1730000000000 ''0.k3x9q7z1bc5''"
  by (simp add: generateUniqueRequestId_def)

text \<open>
  Claim C9, amended: two calls with the same prefix give the same string exactly when
  they read the same clock value and the characters kept of their random strings agree;
  so two calls that read different clock values give different strings.
\<close>

theorem generateUniqueRequestId_eq_iff:
  "generateUniqueRequestId pfx t1 r1 = generateUniqueRequestId pfx t2 r2 \<longleftrightarrow>
     t1 = t2 \<and> take 5 (drop 2 r1) = take 5 (drop 2 r2)"
  by (rule request_id_eq_iff)

theorem generateUniqueRequestId_eq_iff_witness:
  "generateUniqueRequestId ''air'' 1730000000000 ''0.k3x9q2m4tz8'' \<noteq>
   generateUniqueRequestId ''air'' 1730000000001 ''0.k3x9q2m4tz8''"
  using generateUniqueRequestId_eq_iff
    [of "''air''" 1730000000000 "''0.k3x9q2m4tz8''" 1730000000001 "''0.k3x9q2m4tz8''"]
  by simp

subsection \<open>C10: the balance call\<close>

text \<open>
  Claim C10: the balance call never throws; it takes the balance from \<open>data.balance\<close> or
  from \<open>balance\<close>, turns a string into a number with \<open>parseFloat\<close>, and gives 0 when the
  response has neither or the request failed. (What \<open>parseFloat\<close> makes of a string that
  is not a number is its own matter.)
\<close>

theorem getVTPassBalance_never_throws:
  "(\<exists>b. getVTPassBalance parseFloat outcome = Inr b) \<and>
   getVTPassBalance parseFloat (Inl error) = Inr 0 \<and>
   getVTPassBalance parseFloat (Inr None) = Inr 0 \<and>
   getVTPassBalance parseFloat
     (Inr (Some \<lparr>balance = b, data = Some \<lparr>balance = Some (JString str)\<rparr>\<rparr>)) = Inr (parseFloat str) \<and>
   getVTPassBalance parseFloat
     (Inr (Some \<lparr>balance = b, data = Some \<lparr>balance = Some (JNumber n)\<rparr>\<rparr>)) = Inr n \<and>
   getVTPassBalance parseFloat
     (Inr (Some \<lparr>balance = Some (JNumber n), data = None\<rparr>)) = Inr n \<and>
   getVTPassBalance parseFloat
     (Inr (Some \<lparr>balance = Some (JString str), data = None\<rparr>)) = Inr (parseFloat str) \<and>
   getVTPassBalance parseFloat
     (Inr (Some \<lparr>balance = Some (JNumber n), data = Some \<lparr>balance = None\<rparr>\<rparr>)) = Inr n \<and>
   getVTPassBalance parseFloat
     (Inr (Some \<lparr>balance = None, data = None\<rparr>)) = Inr 0 \<and>
   getVTPassBalance parseFloat
     (Inr (Some \<lparr>balance = Some JOther, data = Some \<lparr>balance = Some JOther\<rparr>\<rparr>)) = Inr 0"
proof -
  have "\<exists>b. getVTPassBalance parseFloat outcome = Inr b"
    by (simp add: getVTPassBalance_def split: sum.splits)
  then show ?thesis
    by (simp add: getVTPassBalance_def getVTPassBalance_try_def direct_balance_def)
qed

end
